theory Spec2Isabelle
  imports Main "HOL-Library.Sublist"
begin

section \<open>JavaScript primitives used by the components\<close>

text \<open>
  \<^verbatim>\<open>String.prototype.includes\<close>: \<open>includes_str s n\<close> holds when \<open>n\<close> occurs in \<open>s\<close> as a
  contiguous run of code units. The empty string occurs in every string.
\<close>

fun includes_str :: "string \<Rightarrow> string \<Rightarrow> bool" where
  "includes_str [] n = (n = [])"
| "includes_str (c # cs) n = (prefix n (c # cs) \<or> includes_str cs n)"

text \<open>
  \<^verbatim>\<open>Number.prototype.toString\<close> on a non-negative integer: its decimal digits.
\<close>

definition digit :: "nat \<Rightarrow> char" where
  "digit d = ''0123456789'' ! d"

fun toString :: "nat \<Rightarrow> string" where
  "toString n = (if n < 10 then [digit n] else toString (n div 10) @ [digit (n mod 10)])"

declare toString.simps [simp del]

text \<open>
  \<^verbatim>\<open>String.prototype.trim\<close> strips white space at both ends. Code units are modelled
  as 8-bit characters, so the white space is tab, line feed, vertical tab, form feed,
  carriage return, space and the no-break space.
\<close>

definition isWhiteSpace :: "char \<Rightarrow> bool" where
  "isWhiteSpace c = (of_char c \<in> {9, 10, 11, 12, 13, 32, 160 :: nat})"

definition trim :: "string \<Rightarrow> string" where
  "trim s = rev (dropWhile isWhiteSpace (rev (dropWhile isWhiteSpace s)))"

text \<open>
  An optional string (\<^verbatim>\<open>string | null | undefined\<close>) is \<open>string option\<close>. It is
  truthy when it is present and not the empty string; \<^verbatim>\<open>a || b\<close> yields \<open>a\<close> when
  \<open>a\<close> is truthy and \<open>b\<close> otherwise.
\<close>

fun truthy :: "string option \<Rightarrow> bool" where
  "truthy None = False"
| "truthy (Some s) = (s \<noteq> [])"

definition or_else :: "string option \<Rightarrow> string \<Rightarrow> string" where
  "or_else a b = (case a of Some s \<Rightarrow> (if s \<noteq> [] then s else b) | None \<Rightarrow> b)"

definition or_undefined :: "string option \<Rightarrow> string option" where
  "or_undefined a = (if truthy a then a else None)"

text \<open>\<^verbatim>\<open>xs.filter((_, i) => p(i))\<close>: keep the entries whose index satisfies \<open>p\<close>.\<close>

definition filter_index :: "(int \<Rightarrow> bool) \<Rightarrow> 'a list \<Rightarrow> 'a list" where
  "filter_index p xs = map snd (filter (\<lambda>(i, _). p (int i)) (enumerate 0 xs))"

text \<open>
  A run-time error raised by the engine, and the reason of a rejected promise as the
  handlers see it: what \<^verbatim>\<open>error?.message\<close> reads, which may be missing.
\<close>

datatype js_error = TypeError

type_synonym rejection = "string option"

section \<open>UploadModal.tsx\<close>

record File =
  file_name :: string
  file_size :: nat
  file_type :: string

text \<open>The component state: \<^verbatim>\<open>selectedFiles\<close> (the staged files) and \<^verbatim>\<open>errors\<close>.\<close>

record UploadModal =
  um_selectedFiles :: "File list"
  um_errors :: "string list"

definition MAX_FILES :: nat where
  "MAX_FILES = 50"

definition MAX_FILE_SIZE :: nat where
  "MAX_FILE_SIZE = 10 * 1024 * 1024"

definition ACCEPTED_TYPES :: "string list" where
  "ACCEPTED_TYPES = [''application/pdf'']"

text \<open>
  \<^verbatim>\<open>validateFile\<close> reads the prop \<^verbatim>\<open>currentFileCount\<close> and the staged list of the
  render it was created in.
\<close>

definition validateFile :: "nat \<Rightarrow> UploadModal \<Rightarrow> File \<Rightarrow> string option" where
  "validateFile currentFileCount st file =
     (if file_type file \<notin> set ACCEPTED_TYPES then
        Some (file_name file @ '': Only PDF files are supported'')
      else if file_size file > MAX_FILE_SIZE then
        Some (file_name file @ '': File size must be under 10MB'')
      else if currentFileCount + length (um_selectedFiles st) \<ge> MAX_FILES then
        Some (''Cannot exceed '' @ toString MAX_FILES @ '' files total'')
      else None)"

text \<open>
  The body of \<^verbatim>\<open>fileArray.forEach\<close> in \<^verbatim>\<open>handleFiles\<close>, threading the two local
  arrays \<^verbatim>\<open>newErrors\<close> and \<^verbatim>\<open>validFiles\<close>. The duplicate test comes first and
  returns early; \<^verbatim>\<open>if (error)\<close> tests the returned string for truthiness.
\<close>

fun forEach_file ::
  "nat \<Rightarrow> UploadModal \<Rightarrow> string list \<Rightarrow> File list \<Rightarrow> string list \<times> File list
     \<Rightarrow> string list \<times> File list" where
  "forEach_file currentFileCount st existingNames [] acc = acc"
| "forEach_file currentFileCount st existingNames (file # rest) (newErrors, validFiles) =
     (if file_name file \<in> set existingNames then
        forEach_file currentFileCount st existingNames rest
          (newErrors @ [file_name file @ '': File already selected''], validFiles)
      else if truthy (validateFile currentFileCount st file) then
        forEach_file currentFileCount st existingNames rest
          (newErrors @ [the (validateFile currentFileCount st file)], validFiles)
      else
        forEach_file currentFileCount st existingNames rest (newErrors, validFiles @ [file]))"

definition handleFiles :: "nat \<Rightarrow> File list \<Rightarrow> UploadModal \<Rightarrow> UploadModal" where
  "handleFiles currentFileCount fileArray st =
     (let existingNames = map file_name (um_selectedFiles st);
          (newErrors, validFiles) =
             forEach_file currentFileCount st existingNames fileArray ([], [])
      in st\<lparr>um_errors :=
               filter (\<lambda>e. \<not> list_ex (\<lambda>f. includes_str e (file_name f)) fileArray) (um_errors st)
                 @ newErrors,
             um_selectedFiles := um_selectedFiles st @ validFiles\<rparr>)"

text \<open>
  \<^verbatim>\<open>removeFile(index)\<close>. \<^verbatim>\<open>selectedFiles[index]\<close> is \<^verbatim>\<open>undefined\<close> outside the
  array. The name of the removed file is read inside the callback given to
  \<^verbatim>\<open>prev.filter\<close> on the error list, once for each error entry: with no error entry
  the callback never runs, and with one it raises a \<^verbatim>\<open>TypeError\<close> when the removed
  file is \<^verbatim>\<open>undefined\<close>.
\<close>

definition removeFile :: "int \<Rightarrow> UploadModal \<Rightarrow> js_error + UploadModal" where
  "removeFile index st =
     (let removedFile =
            (if 0 \<le> index \<and> index < int (length (um_selectedFiles st))
             then Some (um_selectedFiles st ! nat index) else None);
          files = filter_index (\<lambda>i. i \<noteq> index) (um_selectedFiles st)
      in case removedFile of
           Some f \<Rightarrow>
             Inr (st\<lparr>um_selectedFiles := files,
                     um_errors := filter (\<lambda>error. \<not> includes_str error (file_name f)) (um_errors st)\<rparr>)
         | None \<Rightarrow>
             (if um_errors st = [] then Inr (st\<lparr>um_selectedFiles := files\<rparr>)
              else Inl TypeError))"

definition clearAllErrors :: "UploadModal \<Rightarrow> UploadModal" where
  "clearAllErrors st = st\<lparr>um_errors := []\<rparr>"

text \<open>
  \<^verbatim>\<open>handleUpload\<close> awaits the callback prop \<^verbatim>\<open>onFilesUploaded\<close>; the callback's
  promise either resolves (\<open>Inr\<close>) or rejects (\<open>Inl\<close>). With nothing staged the callback is not called.
\<close>

definition handleUpload ::
  "(File list \<Rightarrow> rejection + unit) \<Rightarrow> UploadModal \<Rightarrow> UploadModal" where
  "handleUpload onFilesUploaded st =
     (if length (um_selectedFiles st) = 0 then st
      else
        let st1 = clearAllErrors st
        in case onFilesUploaded (um_selectedFiles st) of
             Inr _ \<Rightarrow> st1\<lparr>um_selectedFiles := [], um_errors := []\<rparr>
           | Inl error \<Rightarrow>
               st1\<lparr>um_errors := [''Upload failed: '' @ or_else error ''Please try again'']\<rparr>)"

section \<open>ChatPage.tsx: the page component\<close>

record UploadedFile =
  uf_id :: string
  uf_name :: string
  uf_size :: nat
  uf_type :: string
  uf_uploadedAt :: nat

datatype sender = user | ai

record Message =
  msg_id :: string
  msg_text :: string
  msg_sender :: sender
  msg_timestamp :: nat
  msg_conversation_id :: "string option"

text \<open>The payload and the result of the remote chat operation.\<close>

record ChatRequest =
  req_message :: string
  req_file_id :: "string option"
  req_conversation_id :: "string option"

record ChatResponse =
  response :: "string option"
  message_id :: "string option"
  conversation_id :: "string option"

text \<open>
  The state of \<^verbatim>\<open>ChatPage\<close> that its handlers read and write. The list of uploaded
  files is derived from the file query on every render and is passed where it is read.
\<close>

record ChatPage =
  showUploadModal :: bool
  selectedFiles :: "string list"
  activeDocument :: "string option"
  activeFileId :: "string option"
  conversationId :: "string option"
  messages :: "Message list"
  inputText :: string

definition initialChatPage :: ChatPage where
  "initialChatPage =
     \<lparr>showUploadModal = False, selectedFiles = [], activeDocument = None,
      activeFileId = None, conversationId = None, messages = [], inputText = []\<rparr>"

text \<open>
  The \<^verbatim>\<open>for ... of\<close> loop of \<^verbatim>\<open>handleFilesUploaded\<close>: one awaited upload per file,
  left at the first rejection.
\<close>

fun upload_each :: "(File \<Rightarrow> rejection + unit) \<Rightarrow> File list \<Rightarrow> rejection + unit" where
  "upload_each mutateAsync [] = Inr ()"
| "upload_each mutateAsync (file # files) =
     (case mutateAsync file of
        Inl error \<Rightarrow> Inl error
      | Inr _ \<Rightarrow> upload_each mutateAsync files)"

text \<open>
  \<^verbatim>\<open>handleFilesUploaded\<close>: the whole body is inside \<^verbatim>\<open>try\<close>, and the \<^verbatim>\<open>catch\<close>
  only writes to the console. The first component is the outcome of the promise the
  caller awaits, the second the page state afterwards.
\<close>

definition handleFilesUploaded ::
  "(File \<Rightarrow> rejection + unit) \<Rightarrow> rejection + unit \<Rightarrow> File list \<Rightarrow> ChatPage
     \<Rightarrow> (rejection + unit) \<times> ChatPage" where
  "handleFilesUploaded mutateAsync refetch files st =
     (case upload_each mutateAsync files of
        Inl error \<Rightarrow> (Inr (), st)
      | Inr _ \<Rightarrow>
          (case refetch of
             Inl error \<Rightarrow> (Inr (), st)
           | Inr _ \<Rightarrow> (Inr (), st\<lparr>showUploadModal := False\<rparr>)))"

text \<open>
  The page renders \<^verbatim>\<open><UploadModal onFilesUploaded={handleFilesUploaded} />\<close>: a click on
  the upload button runs \<^verbatim>\<open>handleUpload\<close> of the dialog with the page's handler as
  its callback.
\<close>

definition submitUpload ::
  "(File \<Rightarrow> rejection + unit) \<Rightarrow> rejection + unit \<Rightarrow> UploadModal \<times> ChatPage
     \<Rightarrow> UploadModal \<times> ChatPage" where
  "submitUpload mutateAsync refetch s =
     (case s of (modal, page) \<Rightarrow>
        (handleUpload (\<lambda>files. fst (handleFilesUploaded mutateAsync refetch files page)) modal,
         if length (um_selectedFiles modal) = 0 then page
         else snd (handleFilesUploaded mutateAsync refetch (um_selectedFiles modal) page)))"

text \<open>The effect that picks a default selection, run after a render.\<close>

definition defaultSelection :: "UploadedFile list \<Rightarrow> ChatPage \<Rightarrow> ChatPage" where
  "defaultSelection uploadedFiles st =
     (if length (selectedFiles st) = 0 \<and> length uploadedFiles > 0 then
        let firstFile = uploadedFiles ! 0
        in st\<lparr>selectedFiles := [uf_id firstFile],
              activeDocument := Some (uf_name firstFile),
              activeFileId := Some (uf_id firstFile)\<rparr>
      else st)"

definition handleFileSelect :: "string \<Rightarrow> bool \<Rightarrow> ChatPage \<Rightarrow> ChatPage" where
  "handleFileSelect fileId selected st =
     (if selected then st\<lparr>selectedFiles := selectedFiles st @ [fileId]\<rparr>
      else st\<lparr>selectedFiles := filter (\<lambda>i. i \<noteq> fileId) (selectedFiles st)\<rparr>)"

definition handleFileClick :: "UploadedFile \<Rightarrow> ChatPage \<Rightarrow> ChatPage" where
  "handleFileClick file st =
     (let st1 = st\<lparr>activeDocument := Some (uf_name file), activeFileId := Some (uf_id file)\<rparr>
      in if uf_id file \<notin> set (selectedFiles st)
         then st1\<lparr>selectedFiles := selectedFiles st1 @ [uf_id file]\<rparr> else st1)"

subsection \<open>sendMessage\<close>

text \<open>
  \<^verbatim>\<open>sendMessage\<close> is an \<^verbatim>\<open>async\<close> function with one \<^verbatim>\<open>await\<close>. The part before
  the \<^verbatim>\<open>await\<close> runs when the function is called; the part after it runs when the
  remote call settles, and other events may run in between. The function is a closure
  of the render it was created in: the \<^verbatim>\<open>conversationId\<close> it tests after the
  \<^verbatim>\<open>await\<close> is the one of that render, not the current state. A call in flight carries
  that value and the payload it sent. State updates use the functional form
  \<^verbatim>\<open>setMessages(prev => ...)\<close> and so apply to the state current at that time.
  \<^verbatim>\<open>Date.now()\<close> and \<^verbatim>\<open>new Date()\<close> read one clock value for each part.
\<close>

record InFlight =
  closure_conversationId :: "string option"
  request :: ChatRequest

text \<open>The object given to \<^verbatim>\<open>chatMutation.mutateAsync\<close>.\<close>

definition payload :: "string \<Rightarrow> ChatPage \<Rightarrow> ChatRequest" where
  "payload text st =
     \<lparr>req_message = trim text,
      req_file_id = or_undefined (activeFileId st),
      req_conversation_id = or_undefined (conversationId st)\<rparr>"

definition sendMessage_begin :: "nat \<Rightarrow> string \<Rightarrow> ChatPage \<Rightarrow> (InFlight \<times> ChatPage) option" where
  "sendMessage_begin now text st =
     (if trim text = [] then None
      else
        let userMessage =
              \<lparr>msg_id = toString now, msg_text = trim text, msg_sender = user,
               msg_timestamp = now,
               msg_conversation_id = or_undefined (conversationId st)\<rparr>
        in Some
             (\<lparr>closure_conversationId = conversationId st, request = payload text st\<rparr>,
              st\<lparr>messages := messages st @ [userMessage], inputText := []\<rparr>))"

definition sendMessage_resume ::
  "InFlight \<Rightarrow> nat \<Rightarrow> rejection + ChatResponse \<Rightarrow> ChatPage \<Rightarrow> ChatPage" where
  "sendMessage_resume call now outcome st =
     (case outcome of
        Inr r \<Rightarrow>
          let st1 =
                (if \<not> truthy (closure_conversationId call) \<and> truthy (conversation_id r)
                 then st\<lparr>conversationId := conversation_id r\<rparr> else st);
              aiMessage =
                \<lparr>msg_id = or_else (message_id r) (toString (now + 1)),
                 msg_text = or_else (response r) ''I received your message.'',
                 msg_sender = ai, msg_timestamp = now,
                 msg_conversation_id = conversation_id r\<rparr>
          in st1\<lparr>messages := messages st1 @ [aiMessage]\<rparr>
      | Inl error \<Rightarrow>
          let errorMessage =
                \<lparr>msg_id = toString (now + 1),
                 msg_text = ''Sorry, I encountered an error: '' @ or_else error ''Please try again.'',
                 msg_sender = ai, msg_timestamp = now, msg_conversation_id = None\<rparr>
          in st\<lparr>messages := messages st @ [errorMessage]\<rparr>)"

text \<open>
  A call that runs from start to end with no other event in between: the remote
  operation \<open>mutateAsync\<close> maps the payload to its outcome, \<open>t0\<close> and \<open>t1\<close> are the clock
  at the call and when the remote call settles.
\<close>

definition sendMessage ::
  "(ChatRequest \<Rightarrow> rejection + ChatResponse) \<Rightarrow> nat \<Rightarrow> nat \<Rightarrow> string \<Rightarrow> ChatPage \<Rightarrow> ChatPage" where
  "sendMessage mutateAsync t0 t1 text st =
     (case sendMessage_begin t0 text st of
        None \<Rightarrow> st
      | Some (call, st1) \<Rightarrow> sendMessage_resume call t1 (mutateAsync (request call)) st1)"

section \<open>ChatPage.tsx: the first ChatSection component\<close>

text \<open>
  This component keeps its own message log, input text and conversation id, and gets the
  active file id as a prop. Its \<^verbatim>\<open>sendMessage\<close> differs from the page's in two places:
  the user message takes \<^verbatim>\<open>conversationId ?? undefined\<close>, and the text of the message
  appended on failure.
\<close>

record ChatSection =
  cs_messages :: "Message list"
  cs_inputText :: string
  cs_conversationId :: "string option"

definition ChatSection_payload :: "string option \<Rightarrow> string \<Rightarrow> ChatSection \<Rightarrow> ChatRequest" where
  "ChatSection_payload activeFileId_prop text st =
     \<lparr>req_message = trim text,
      req_file_id = or_undefined activeFileId_prop,
      req_conversation_id = or_undefined (cs_conversationId st)\<rparr>"

definition ChatSection_sendMessage_begin ::
  "string option \<Rightarrow> nat \<Rightarrow> string \<Rightarrow> ChatSection \<Rightarrow> (InFlight \<times> ChatSection) option" where
  "ChatSection_sendMessage_begin activeFileId_prop now text st =
     (if trim text = [] then None
      else
        let userMessage =
              \<lparr>msg_id = toString now, msg_text = trim text, msg_sender = user,
               msg_timestamp = now, msg_conversation_id = cs_conversationId st\<rparr>
        in Some
             (\<lparr>closure_conversationId = cs_conversationId st,
               request = ChatSection_payload activeFileId_prop text st\<rparr>,
              st\<lparr>cs_messages := cs_messages st @ [userMessage], cs_inputText := []\<rparr>))"

definition ChatSection_sendMessage_resume ::
  "InFlight \<Rightarrow> nat \<Rightarrow> rejection + ChatResponse \<Rightarrow> ChatSection \<Rightarrow> ChatSection" where
  "ChatSection_sendMessage_resume call now outcome st =
     (case outcome of
        Inr r \<Rightarrow>
          let st1 =
                (if \<not> truthy (closure_conversationId call) \<and> truthy (conversation_id r)
                 then st\<lparr>cs_conversationId := conversation_id r\<rparr> else st);
              aiMessage =
                \<lparr>msg_id = or_else (message_id r) (toString (now + 1)),
                 msg_text = or_else (response r) ''I received your message.'',
                 msg_sender = ai, msg_timestamp = now,
                 msg_conversation_id = conversation_id r\<rparr>
          in st1\<lparr>cs_messages := cs_messages st1 @ [aiMessage]\<rparr>
      | Inl error \<Rightarrow>
          st\<lparr>cs_messages := cs_messages st @
               [\<lparr>msg_id = toString (now + 1),
                 msg_text = ''Error: '' @ or_else error ''Please try again.'',
                 msg_sender = ai, msg_timestamp = now, msg_conversation_id = None\<rparr>]\<rparr>)"

definition ChatSection_sendMessage ::
  "(ChatRequest \<Rightarrow> rejection + ChatResponse) \<Rightarrow> string option \<Rightarrow> nat \<Rightarrow> nat \<Rightarrow> string
     \<Rightarrow> ChatSection \<Rightarrow> ChatSection" where
  "ChatSection_sendMessage mutateAsync activeFileId_prop t0 t1 text st =
     (case ChatSection_sendMessage_begin activeFileId_prop t0 text st of
        None \<Rightarrow> st
      | Some (call, st1) \<Rightarrow>
          ChatSection_sendMessage_resume call t1 (mutateAsync (request call)) st1)"

section \<open>Reference statements\<close>

text \<open>
  The order in which one candidate is decided against a staged list, written as a single
  chain with the messages spelled out: the name is compared with the staged files, then
  the type, the size and the count are tested. \<open>stored\<close> is the prop
  \<^verbatim>\<open>currentFileCount\<close>. It is compared with the source's loop below.
\<close>

definition precedence_error :: "nat \<Rightarrow> UploadModal \<Rightarrow> File \<Rightarrow> string option" where
  "precedence_error stored st f =
     (if file_name f \<in> file_name ` set (um_selectedFiles st) then
        Some (file_name f @ '': File already selected'')
      else if file_type f \<noteq> ''application/pdf'' then
        Some (file_name f @ '': Only PDF files are supported'')
      else if file_size f > 10485760 then
        Some (file_name f @ '': File size must be under 10MB'')
      else if stored + length (um_selectedFiles st) \<ge> 50 then
        Some ''Cannot exceed 50 files total''
      else None)"

text \<open>
  A batch taken one candidate at a time: each candidate is decided by
  \<open>precedence_error\<close> against the files staged so far, and an accepted candidate is
  staged at once. The result is the list of messages and the staged list.
\<close>

fun stage_each :: "nat \<Rightarrow> File list \<Rightarrow> UploadModal \<Rightarrow> string list \<times> File list" where
  "stage_each stored [] st = ([], um_selectedFiles st)"
| "stage_each stored (f # fs) st =
     (case precedence_error stored st f of
        Some e \<Rightarrow> (e # fst (stage_each stored fs st), snd (stage_each stored fs st))
      | None \<Rightarrow> stage_each stored fs (st\<lparr>um_selectedFiles := um_selectedFiles st @ [f]\<rparr>))"

section \<open>Auxiliary facts\<close>

lemma includes_str_iff_sublist: "includes_str s n \<longleftrightarrow> sublist n s"
  by (induction s) (auto simp: sublist_Cons_right)

lemma includes_str_own_name: "includes_str (n @ s) n"
  by (simp add: includes_str_iff_sublist)

lemma filter_enumerate_above:
  "j < k \<Longrightarrow> map snd (filter (\<lambda>(i, _). i \<noteq> j) (enumerate k xs)) = xs"
  by (induction xs arbitrary: k) auto

lemma filter_enumerate_at:
  "k \<le> j \<Longrightarrow> map snd (filter (\<lambda>(i, _). i \<noteq> j) (enumerate k xs)) =
     take (j - k) xs @ drop (Suc (j - k)) xs"
proof (induction xs arbitrary: k)
  case Nil
  then show ?case by simp
next
  case (Cons x xs)
  show ?case
  proof (cases "k = j")
    case True
    then show ?thesis by (simp add: filter_enumerate_above)
  next
    case False
    with Cons.prems have le: "Suc k \<le> j" by simp
    then have d: "j - k = Suc (j - Suc k)" by simp
    from Cons.IH [OF le] False show ?thesis
      by (simp add: d)
  qed
qed

lemma filter_index_in_range:
  assumes "0 \<le> index" 
  shows "filter_index (\<lambda>i. i \<noteq> index) xs = take (nat index) xs @ drop (Suc (nat index)) xs"
proof -
  have "(\<lambda>(i, _::'a). int i \<noteq> index) = (\<lambda>(i, _). i \<noteq> nat index)"
    using assms by (auto simp: fun_eq_iff)
  then show ?thesis
    using filter_enumerate_at [of 0 "nat index" xs] by (simp add: filter_index_def)
qed

lemma filter_index_out_of_range:
  assumes "index < 0 \<or> int (length xs) \<le> index"
  shows "filter_index (\<lambda>i. i \<noteq> index) xs = xs"
proof (cases "index < 0")
  case True
  then have "(\<lambda>(i, _::'a). int i \<noteq> index) = (\<lambda>_. True)"
    by (auto simp: fun_eq_iff)
  then show ?thesis by (simp add: filter_index_def)
next
  case False
  with assms have "length xs \<le> nat index" by simp
  with False show ?thesis by (simp add: filter_index_in_range)
qed

lemma toString_50: "toString 50 = ''50''"
  by (simp add: toString.simps digit_def)

lemma validateFile_eq:
  "validateFile stored st f =
     (if file_type f \<noteq> ''application/pdf'' then
        Some (file_name f @ '': Only PDF files are supported'')
      else if file_size f > 10485760 then
        Some (file_name f @ '': File size must be under 10MB'')
      else if stored + length (um_selectedFiles st) \<ge> 50 then
        Some ''Cannot exceed 50 files total''
      else None)"
  by (simp add: validateFile_def toString_50 ACCEPTED_TYPES_def MAX_FILE_SIZE_def
      MAX_FILES_def)

lemma validateFile_truthy: "truthy (validateFile stored st f) \<longleftrightarrow> validateFile stored st f \<noteq> None"
  by (simp add: validateFile_eq)

lemma forEach_file_eq:
  "forEach_file stored st (map file_name (um_selectedFiles st)) fs (es, vs) =
     (es @ List.map_filter (precedence_error stored st) fs,
      vs @ filter (\<lambda>f. precedence_error stored st f = None) fs)"
proof (induction fs arbitrary: es vs)
  case Nil
  show ?case by simp
next
  case (Cons f fs)
  show ?case
  proof (cases "file_name f \<in> file_name ` set (um_selectedFiles st)")
    case True
    then show ?thesis
      by (simp add: Cons.IH precedence_error_def)
  next
    case False
    show ?thesis
    proof (cases "validateFile stored st f")
      case None
      with False have "precedence_error stored st f = None"
        by (simp add: precedence_error_def validateFile_eq split: if_splits)
      with False None show ?thesis
        by (simp add: Cons.IH)
    next
      case (Some e)
      with False have pe: "precedence_error stored st f = Some e"
        by (simp add: precedence_error_def validateFile_eq split: if_splits)
      from Some have "truthy (validateFile stored st f)"
        using validateFile_truthy [of stored st f] by simp
      with False Some pe show ?thesis
        by (simp add: Cons.IH)
    qed
  qed
qed

lemma handleFiles_eq:
  "handleFiles stored batch st =
     st\<lparr>um_errors :=
          filter (\<lambda>e. \<not> list_ex (\<lambda>f. includes_str e (file_name f)) batch) (um_errors st)
            @ List.map_filter (precedence_error stored st) batch,
        um_selectedFiles :=
          um_selectedFiles st @ filter (\<lambda>f. precedence_error stored st f = None) batch\<rparr>"
  by (simp add: handleFiles_def forEach_file_eq)

lemma map_filter_eq_on_set:
  "\<forall>x\<in>set xs. f x = g x \<Longrightarrow> List.map_filter f xs = List.map_filter g xs"
  by (induction xs) (auto split: option.splits)

lemma precedence_error_after_accept:
  assumes "file_name g \<noteq> file_name f"
    and "stored + length (um_selectedFiles st) + 2 \<le> 50"
  shows "precedence_error stored (st\<lparr>um_selectedFiles := um_selectedFiles st @ [f]\<rparr>) g =
     precedence_error stored st g"
  using assms by (simp add: precedence_error_def)

lemma stage_each_eq:
  assumes "distinct (map file_name batch)"
    and "stored + length (um_selectedFiles st) + length batch \<le> 50
         \<or> 50 \<le> stored + length (um_selectedFiles st)"
  shows "stage_each stored batch st =
     (List.map_filter (precedence_error stored st) batch,
      um_selectedFiles st @ filter (\<lambda>f. precedence_error stored st f = None) batch)"
  using assms
proof (induction batch arbitrary: st)
  case Nil
  show ?case by simp
next
  case (Cons f fs)
  from Cons.prems(1) have dist: "distinct (map file_name fs)"
    and fresh: "\<And>g. g \<in> set fs \<Longrightarrow> file_name g \<noteq> file_name f"
    by (auto simp: image_iff)
  show ?case
  proof (cases "precedence_error stored st f")
    case (Some e)
    from Cons.prems(2) have "stored + length (um_selectedFiles st) + length fs \<le> 50
         \<or> 50 \<le> stored + length (um_selectedFiles st)"
      by auto
    from Cons.IH [OF dist this] Some show ?thesis
      by simp
  next
    case None
    then have below: "stored + length (um_selectedFiles st) < 50"
      by (simp add: precedence_error_def split: if_splits)
    with Cons.prems(2) have room: "stored + length (um_selectedFiles st) + Suc (length fs) \<le> 50"
      by simp
    define st' where "st' = st\<lparr>um_selectedFiles := um_selectedFiles st @ [f]\<rparr>"
    have len: "length (um_selectedFiles st') = Suc (length (um_selectedFiles st))"
      by (simp add: st'_def)
    from room have "stored + length (um_selectedFiles st') + length fs \<le> 50
         \<or> 50 \<le> stored + length (um_selectedFiles st')"
      by (simp add: len)
    from Cons.IH [OF dist this]
    have ih: "stage_each stored fs st' =
       (List.map_filter (precedence_error stored st') fs,
        um_selectedFiles st' @ filter (\<lambda>f. precedence_error stored st' f = None) fs)" .
    have same: "precedence_error stored st' g = precedence_error stored st g"
      if "g \<in> set fs" for g
    proof -
      from that have "Suc 0 \<le> length fs" by (cases fs) auto
      with room have "stored + length (um_selectedFiles st) + 2 \<le> 50" by arith
      with fresh [OF that] show ?thesis
        unfolding st'_def by (rule precedence_error_after_accept)
    qed
    have mf: "List.map_filter (precedence_error stored st') fs =
        List.map_filter (precedence_error stored st) fs"
      using same by (intro map_filter_eq_on_set) simp
    have fl: "filter (\<lambda>f. precedence_error stored st' f = None) fs =
        filter (\<lambda>f. precedence_error stored st f = None) fs"
      using same by (intro filter_cong refl) simp
    from None ih show ?thesis
      by (simp add: st'_def [symmetric] mf fl) (simp add: st'_def)
  qed
qed

lemma handleFiles_errors_of_name:
  assumes "f \<in> set batch"
  shows "filter (\<lambda>e. includes_str e (file_name f)) (um_errors (handleFiles stored batch st)) =
      filter (\<lambda>e. includes_str e (file_name f))
        (fst (forEach_file stored st (map file_name (um_selectedFiles st)) batch ([], [])))"
proof -
  from assms have "filter (\<lambda>e. includes_str e (file_name f))
      (filter (\<lambda>e. \<not> list_ex (\<lambda>f. includes_str e (file_name f)) batch) (um_errors st)) = []"
    by (auto simp: filter_empty_conv list_ex_iff)
  then show ?thesis
    by (simp add: handleFiles_def split: prod.splits)
qed

lemma handleFiles_same_name_twice:
  assumes fresh: "file_name f \<notin> file_name ` set (um_selectedFiles st)"
    and pdf: "file_type f \<in> set ACCEPTED_TYPES"
    and small: "file_size f \<le> MAX_FILE_SIZE"
    and room: "stored + length (um_selectedFiles st) < MAX_FILES"
    and same: "file_name g = file_name f"
  shows "filter (\<lambda>x. file_name x = file_name f)
        (um_selectedFiles (handleFiles stored' [g] (handleFiles stored [f] st))) = [f] \<and>
      filter (\<lambda>e. includes_str e (file_name f))
        (um_errors (handleFiles stored' [g] (handleFiles stored [f] st))) =
        [file_name f @ '': File already selected'']"
proof -
  have ok: "precedence_error stored st f = None"
    using fresh pdf small room
    by (simp add: precedence_error_def ACCEPTED_TYPES_def MAX_FILE_SIZE_def MAX_FILES_def)
  define st1 where "st1 = handleFiles stored [f] st"
  have s1: "um_selectedFiles st1 = um_selectedFiles st @ [f]"
    and e1: "um_errors st1 = filter (\<lambda>e. \<not> includes_str e (file_name f)) (um_errors st)"
    using ok by (simp_all add: st1_def handleFiles_eq)
  from same s1 have dup:
    "precedence_error stored' st1 g = Some (file_name f @ '': File already selected'')"
    by (simp add: precedence_error_def)
  have s2: "um_selectedFiles (handleFiles stored' [g] st1) = um_selectedFiles st @ [f]"
    and e2: "um_errors (handleFiles stored' [g] st1) =
       filter (\<lambda>e. \<not> includes_str e (file_name f)) (um_errors st)
         @ [file_name f @ '': File already selected'']"
    using same dup by (simp_all add: handleFiles_eq s1 e1)
  have none: "filter (\<lambda>x. file_name x = file_name f) (um_selectedFiles st) = []"
    using fresh by (auto simp: filter_empty_conv image_iff)
  show ?thesis
    unfolding st1_def [symmetric]
    by (simp add: s2 e2 none includes_str_own_name)
qed

lemma handleUpload_resolved:
  "um_selectedFiles st \<noteq> [] \<Longrightarrow> onFilesUploaded (um_selectedFiles st) = Inr () \<Longrightarrow>
     handleUpload onFilesUploaded st = st\<lparr>um_selectedFiles := [], um_errors := []\<rparr>"
  by (simp add: handleUpload_def clearAllErrors_def)

lemma handleUpload_rejected:
  "um_selectedFiles st \<noteq> [] \<Longrightarrow> onFilesUploaded (um_selectedFiles st) = Inl error \<Longrightarrow>
     handleUpload onFilesUploaded st =
       st\<lparr>um_errors := [''Upload failed: '' @ or_else error ''Please try again'']\<rparr>"
  by (simp add: handleUpload_def clearAllErrors_def)

lemma handleFilesUploaded_resolves:
  "fst (handleFilesUploaded mutateAsync refetch files st) = Inr ()"
  by (simp add: handleFilesUploaded_def split: sum.splits)

lemma submitUpload_clears:
  "um_selectedFiles modal \<noteq> [] \<Longrightarrow>
     fst (submitUpload mutateAsync refetch (modal, page)) =
       modal\<lparr>um_selectedFiles := [], um_errors := []\<rparr>"
  by (simp add: submitUpload_def handleUpload_resolved handleFilesUploaded_resolves)

section \<open>Upload flow\<close>

text \<open>
  Claim C4, as amended. Each candidate handled by \<^verbatim>\<open>handleFiles\<close> is decided in this
  order: (1) a name equal to the name of a staged file gives
  "<name>: File already selected"; (2) a type other than "application/pdf" gives
  "<name>: Only PDF files are supported"; (3) a size over 10 MiB gives
  "<name>: File size must be under 10MB"; (4) a stored count plus staged count that is
  already 50 or more gives "Cannot exceed 50 files total". A candidate that fails a check
  yields that check's message only, appended to the error list, and a candidate that
  passes every check is appended to the staged list. This is stated for the batches whose
  files have pairwise distinct names and that either fit under the limit as a whole or
  arrive when the limit is already reached; every batch of one file is such a batch.
\<close>

theorem handleFiles_precedence:
  assumes "distinct (map file_name batch)"
    and "stored + length (um_selectedFiles st) + length batch \<le> MAX_FILES
         \<or> MAX_FILES \<le> stored + length (um_selectedFiles st)"
  shows "um_selectedFiles (handleFiles stored batch st) = snd (stage_each stored batch st)
     \<and> (\<exists>kept. subseq kept (um_errors st) \<and>
           um_errors (handleFiles stored batch st) = kept @ fst (stage_each stored batch st))"
proof -
  from assms(2) have room:
    "stored + length (um_selectedFiles st) + length batch \<le> 50
       \<or> 50 \<le> stored + length (um_selectedFiles st)"
    by (simp add: MAX_FILES_def)
  note seq = stage_each_eq [OF assms(1) room]
  have "subseq (filter (\<lambda>e. \<not> list_ex (\<lambda>f. includes_str e (file_name f)) batch) (um_errors st))
     (um_errors st)"
    by simp
  then show ?thesis
    by (auto simp: handleFiles_eq seq)
qed

theorem handleFiles_precedence_witness:
  "distinct (map file_name
     [\<lparr>file_name = ''a.pdf'', file_size = 7, file_type = ''text/plain''\<rparr>,
      \<lparr>file_name = ''b.txt'', file_size = 99999999, file_type = ''text/plain''\<rparr>,
      \<lparr>file_name = ''big.pdf'', file_size = 10485761, file_type = ''application/pdf''\<rparr>,
      \<lparr>file_name = ''ok.pdf'', file_size = 10485760, file_type = ''application/pdf''\<rparr>])
   \<and> um_selectedFiles
     (handleFiles 0
        [\<lparr>file_name = ''a.pdf'', file_size = 7, file_type = ''text/plain''\<rparr>,
         \<lparr>file_name = ''b.txt'', file_size = 99999999, file_type = ''text/plain''\<rparr>,
         \<lparr>file_name = ''big.pdf'', file_size = 10485761, file_type = ''application/pdf''\<rparr>,
         \<lparr>file_name = ''ok.pdf'', file_size = 10485760, file_type = ''application/pdf''\<rparr>]
        \<lparr>um_selectedFiles =
           [\<lparr>file_name = ''a.pdf'', file_size = 5, file_type = ''application/pdf''\<rparr>],
         um_errors = []\<rparr>) =
     [\<lparr>file_name = ''a.pdf'', file_size = 5, file_type = ''application/pdf''\<rparr>,
      \<lparr>file_name = ''ok.pdf'', file_size = 10485760, file_type = ''application/pdf''\<rparr>]
   \<and> um_errors
     (handleFiles 0
        [\<lparr>file_name = ''a.pdf'', file_size = 7, file_type = ''text/plain''\<rparr>,
         \<lparr>file_name = ''b.txt'', file_size = 99999999, file_type = ''text/plain''\<rparr>,
         \<lparr>file_name = ''big.pdf'', file_size = 10485761, file_type = ''application/pdf''\<rparr>,
         \<lparr>file_name = ''ok.pdf'', file_size = 10485760, file_type = ''application/pdf''\<rparr>]
        \<lparr>um_selectedFiles =
           [\<lparr>file_name = ''a.pdf'', file_size = 5, file_type = ''application/pdf''\<rparr>],
         um_errors = []\<rparr>) =
     [''a.pdf: File already selected'', ''b.txt: Only PDF files are supported'',
      ''big.pdf: File size must be under 10MB'']
   \<and> MAX_FILES \<le> 50 + length (um_selectedFiles \<lparr>um_selectedFiles = [], um_errors = []\<rparr>)
   \<and> um_errors
     (handleFiles 50 [\<lparr>file_name = ''ok.pdf'', file_size = 5, file_type = ''application/pdf''\<rparr>]
        \<lparr>um_selectedFiles = [], um_errors = []\<rparr>) = [''Cannot exceed 50 files total'']
   \<and> um_selectedFiles
     (handleFiles 50 [\<lparr>file_name = ''ok.pdf'', file_size = 5, file_type = ''application/pdf''\<rparr>]
        \<lparr>um_selectedFiles = [], um_errors = []\<rparr>) = []"
  using handleFiles_precedence [of
        "[\<lparr>file_name = ''ok.pdf'', file_size = 5, file_type = ''application/pdf''\<rparr>]"
        50 "\<lparr>um_selectedFiles = [], um_errors = []\<rparr>"]
    handleFiles_precedence [of
        "[\<lparr>file_name = ''a.pdf'', file_size = 7, file_type = ''text/plain''\<rparr>,
         \<lparr>file_name = ''b.txt'', file_size = 99999999, file_type = ''text/plain''\<rparr>,
         \<lparr>file_name = ''big.pdf'', file_size = 10485761, file_type = ''application/pdf''\<rparr>,
         \<lparr>file_name = ''ok.pdf'', file_size = 10485760, file_type = ''application/pdf''\<rparr>]"
        0
        "\<lparr>um_selectedFiles =
           [\<lparr>file_name = ''a.pdf'', file_size = 5, file_type = ''application/pdf''\<rparr>],
         um_errors = []\<rparr>"]
  by (auto simp: precedence_error_def MAX_FILES_def dest!: list_emb_Nil2)

text \<open>
  The order stated in the claim puts the type test before the duplicate-name test. A
  candidate that is not a PDF and carries the name of a staged file gets the duplicate-name
  message, not the type message. And a candidate whose acceptance brings the total to
  exactly 50 is accepted: the count test rejects only when the total is 50 or more
  before the candidate is added.
\<close>

theorem handleFiles_precedence_counterexample:
  "file_type \<lparr>file_name = ''a.pdf'', file_size = 7, file_type = ''text/plain''\<rparr>
     \<notin> set ACCEPTED_TYPES
   \<and> um_errors
       (handleFiles 0 [\<lparr>file_name = ''a.pdf'', file_size = 7, file_type = ''text/plain''\<rparr>]
          \<lparr>um_selectedFiles =
             [\<lparr>file_name = ''a.pdf'', file_size = 5, file_type = ''application/pdf''\<rparr>],
           um_errors = []\<rparr>)
     = [''a.pdf: File already selected'']
   \<and> um_errors
       (handleFiles 0 [\<lparr>file_name = ''a.pdf'', file_size = 7, file_type = ''text/plain''\<rparr>]
          \<lparr>um_selectedFiles =
             [\<lparr>file_name = ''a.pdf'', file_size = 5, file_type = ''application/pdf''\<rparr>],
           um_errors = []\<rparr>)
     \<noteq> [''a.pdf: Only PDF files are supported'']
   \<and> MAX_FILES \<le> 49 + length (um_selectedFiles \<lparr>um_selectedFiles = [], um_errors = []\<rparr>) + 1
   \<and> handleFiles 49 [\<lparr>file_name = ''ok.pdf'', file_size = 5, file_type = ''application/pdf''\<rparr>]
        \<lparr>um_selectedFiles = [], um_errors = []\<rparr>
     = \<lparr>um_selectedFiles =
          [\<lparr>file_name = ''ok.pdf'', file_size = 5, file_type = ''application/pdf''\<rparr>],
        um_errors = []\<rparr>"
  by (simp add: handleFiles_def validateFile_def ACCEPTED_TYPES_def MAX_FILES_def
      MAX_FILE_SIZE_def)

text \<open>
  Claim C6. \<^verbatim>\<open>handleFiles\<close> drops the earlier entries that contain the name of a file
  of the new batch before it appends the new ones (\<open>handleFiles_errors_of_name\<close>,
  \<open>handleFiles_same_name_twice\<close>), but the count-limit message contains no file name
  and is never dropped: with 50 files stored, validating the same file in two batches
  leaves the message twice.
\<close>

theorem handleFiles_count_limit_error_doubles:
  "um_errors
     (handleFiles 50 [\<lparr>file_name = ''x.pdf'', file_size = 5, file_type = ''application/pdf''\<rparr>]
        \<lparr>um_selectedFiles = [], um_errors = []\<rparr>)
     = [''Cannot exceed 50 files total'']
   \<and> handleFiles 50 [\<lparr>file_name = ''x.pdf'', file_size = 5, file_type = ''application/pdf''\<rparr>]
       (handleFiles 50 [\<lparr>file_name = ''x.pdf'', file_size = 5, file_type = ''application/pdf''\<rparr>]
          \<lparr>um_selectedFiles = [], um_errors = []\<rparr>)
     = \<lparr>um_selectedFiles = [],
        um_errors = [''Cannot exceed 50 files total'', ''Cannot exceed 50 files total'']\<rparr>"
  by (simp add: handleFiles_def validateFile_def ACCEPTED_TYPES_def MAX_FILES_def
      MAX_FILE_SIZE_def toString_50)

lemma removeFile_in_range:
  assumes "0 \<le> index" and "index < int (length (um_selectedFiles st))"
  shows "removeFile index st =
     Inr (st\<lparr>um_selectedFiles :=
               take (nat index) (um_selectedFiles st) @ drop (Suc (nat index)) (um_selectedFiles st),
             um_errors :=
               filter (\<lambda>e. \<not> includes_str e (file_name (um_selectedFiles st ! nat index)))
                 (um_errors st)\<rparr>)"
  using assms by (simp add: removeFile_def filter_index_in_range)

text \<open>
  Claim C7. \<^verbatim>\<open>removeFile\<close> drops every error entry that contains the removed file's
  name as a substring (\<open>removeFile_in_range\<close>), and so also entries of other files. A
  batch with a valid "report.pdf" and an oversized "annual-report.pdf" stages the first
  and records a size error for the second; removing "report.pdf" then deletes the error
  entry of "annual-report.pdf".
\<close>

theorem removeFile_removes_error_of_other_file:
  "handleFiles 0
     [\<lparr>file_name = ''report.pdf'', file_size = 5, file_type = ''application/pdf''\<rparr>,
      \<lparr>file_name = ''annual-report.pdf'', file_size = 10485761, file_type = ''application/pdf''\<rparr>]
     \<lparr>um_selectedFiles = [], um_errors = []\<rparr>
     = \<lparr>um_selectedFiles =
          [\<lparr>file_name = ''report.pdf'', file_size = 5, file_type = ''application/pdf''\<rparr>],
        um_errors = [''annual-report.pdf: File size must be under 10MB'']\<rparr>
   \<and> removeFile 0
       \<lparr>um_selectedFiles =
          [\<lparr>file_name = ''report.pdf'', file_size = 5, file_type = ''application/pdf''\<rparr>],
        um_errors = [''annual-report.pdf: File size must be under 10MB'']\<rparr>
     = Inr \<lparr>um_selectedFiles = [], um_errors = []\<rparr>"
  by (simp add: handleFiles_def validateFile_def ACCEPTED_TYPES_def MAX_FILES_def
      MAX_FILE_SIZE_def removeFile_def filter_index_def)

text \<open>
  Claim C10, as amended. \<^verbatim>\<open>removeFile\<close> fails exactly when the index is outside the
  staged list and the error list is not empty: the name of the missing entry is read once
  per error entry. With an index outside the staged list and an empty error list it
  returns normally and changes nothing.
\<close>

theorem removeFile_fails_iff:
  "(isl (removeFile index st) \<longleftrightarrow>
      (index < 0 \<or> int (length (um_selectedFiles st)) \<le> index) \<and> um_errors st \<noteq> [])
   \<and> ((index < 0 \<or> int (length (um_selectedFiles st)) \<le> index) \<and> um_errors st = [] \<longrightarrow>
        removeFile index st = Inr st)"
  by (auto simp: removeFile_def filter_index_out_of_range Let_def)

theorem removeFile_fails_iff_witness:
  "isl (removeFile 3
          \<lparr>um_selectedFiles =
             [\<lparr>file_name = ''a.pdf'', file_size = 5, file_type = ''application/pdf''\<rparr>],
           um_errors = [''b.txt: Only PDF files are supported'']\<rparr>)
   \<and> removeFile (- 1)
        \<lparr>um_selectedFiles =
           [\<lparr>file_name = ''a.pdf'', file_size = 5, file_type = ''application/pdf''\<rparr>],
         um_errors = []\<rparr>
      = Inr \<lparr>um_selectedFiles =
               [\<lparr>file_name = ''a.pdf'', file_size = 5, file_type = ''application/pdf''\<rparr>],
             um_errors = []\<rparr>"
  using
    removeFile_fails_iff [of 3
        "\<lparr>um_selectedFiles =
             [\<lparr>file_name = ''a.pdf'', file_size = 5, file_type = ''application/pdf''\<rparr>],
           um_errors = [''b.txt: Only PDF files are supported'']\<rparr>"]
    removeFile_fails_iff [of "- 1"
        "\<lparr>um_selectedFiles =
           [\<lparr>file_name = ''a.pdf'', file_size = 5, file_type = ''application/pdf''\<rparr>],
         um_errors = []\<rparr>"]
  by simp

text \<open>
  The claim lets every index outside the staged list fail. With an empty error list the
  call returns normally.
\<close>

theorem removeFile_out_of_range_counterexample:
  "\<not> ((0::int) \<le> 3 \<and> (3::int) < int (length
          (um_selectedFiles
             \<lparr>um_selectedFiles =
                [\<lparr>file_name = ''a.pdf'', file_size = 5, file_type = ''application/pdf''\<rparr>],
              um_errors = []\<rparr>)))
   \<and> removeFile 3
        \<lparr>um_selectedFiles =
           [\<lparr>file_name = ''a.pdf'', file_size = 5, file_type = ''application/pdf''\<rparr>],
         um_errors = []\<rparr>
      = Inr \<lparr>um_selectedFiles =
               [\<lparr>file_name = ''a.pdf'', file_size = 5, file_type = ''application/pdf''\<rparr>],
             um_errors = []\<rparr>"
  by (simp add: removeFile_def filter_index_def)

text \<open>
  Claim C5. The dialog keeps the staged files and records one "Upload failed" entry when
  its callback rejects (\<open>handleUpload_rejected\<close>), but the callback the page passes never
  rejects (\<open>handleFilesUploaded_resolves\<close>). With one staged file whose upload is
  refused, the submission ends with an empty staged list and an empty error list, and
  the dialog stays open.
\<close>

theorem submitUpload_failure_clears_staged:
  "upload_each (\<lambda>file. Inl (Some ''Network Error''))
      [\<lparr>file_name = ''a.pdf'', file_size = 5, file_type = ''application/pdf''\<rparr>]
     = Inl (Some ''Network Error'')
   \<and> submitUpload (\<lambda>file. Inl (Some ''Network Error'')) (Inr ())
       (\<lparr>um_selectedFiles =
            [\<lparr>file_name = ''a.pdf'', file_size = 5, file_type = ''application/pdf''\<rparr>],
         um_errors = []\<rparr>,
        initialChatPage\<lparr>showUploadModal := True\<rparr>)
     = (\<lparr>um_selectedFiles = [], um_errors = []\<rparr>, initialChatPage\<lparr>showUploadModal := True\<rparr>)"
  by (simp add: submitUpload_def handleUpload_def handleFilesUploaded_def clearAllErrors_def)

section \<open>Conversation flow\<close>

lemma sendMessage_begin_None: "sendMessage_begin now text st = None \<longleftrightarrow> trim text = []"
  by (simp add: sendMessage_begin_def Let_def)

lemma or_else_eq: "or_else a b = (if truthy a then the a else b)"
  by (cases a) (simp_all add: or_else_def)

lemma payload_conversation_id:
  "req_conversation_id (payload text st) = or_undefined (conversationId st)"
  by (simp add: payload_def)

lemma sendMessage_resume_keeps_conversationId:
  "truthy (closure_conversationId call) \<Longrightarrow>
     conversationId (sendMessage_resume call now outcome st) = conversationId st"
  by (simp add: sendMessage_resume_def Let_def split: sum.splits)

lemma sendMessage_keeps_conversationId:
  "truthy (conversationId st) \<Longrightarrow>
     conversationId (sendMessage mutateAsync t0 t1 text st) = conversationId st"
  by (simp add: sendMessage_def sendMessage_begin_def sendMessage_resume_def Let_def
      split: sum.splits)

lemma sendMessage_adopts_conversationId:
  "trim text \<noteq> [] \<Longrightarrow> \<not> truthy (conversationId st) \<Longrightarrow>
   mutateAsync (payload text st) = Inr r \<Longrightarrow> truthy (conversation_id r) \<Longrightarrow>
     conversationId (sendMessage mutateAsync t0 t1 text st) = conversation_id r"
  by (simp add: sendMessage_def sendMessage_begin_def sendMessage_resume_def Let_def)

text \<open>
  Claim C1, as amended. A call of \<^verbatim>\<open>sendMessage\<close> whose trimmed text is not empty and whose
  remote call succeeds with payload \<open>r\<close> appends the user message and then exactly one
  message with sender \<open>ai\<close>. Its id is \<open>r.message_id\<close> when that field is present and not
  the empty string, and the locally generated id otherwise; its text is \<open>r.response\<close> when
  that field is present and not empty, and "I received your message." otherwise.
\<close>

theorem sendMessage_success:
  assumes "trim text \<noteq> []" and "mutateAsync (payload text st) = Inr r"
  shows "messages (sendMessage mutateAsync t0 t1 text st) =
     messages st @
       [\<lparr>msg_id = toString t0, msg_text = trim text, msg_sender = user, msg_timestamp = t0,
         msg_conversation_id = or_undefined (conversationId st)\<rparr>,
        \<lparr>msg_id = (if truthy (message_id r) then the (message_id r) else toString (t1 + 1)),
         msg_text = (if truthy (response r) then the (response r) else ''I received your message.''),
         msg_sender = ai, msg_timestamp = t1, msg_conversation_id = conversation_id r\<rparr>]"
  using assms
  by (simp add: sendMessage_def sendMessage_begin_def sendMessage_resume_def Let_def or_else_eq)

theorem sendMessage_success_witness:
  "trim ''  hello '' \<noteq> []
   \<and> messages
       (sendMessage
          (\<lambda>req. Inr \<lparr>response = Some ''hi'', message_id = Some ''m1'', conversation_id = Some ''c1''\<rparr>)
          100 200 ''  hello '' initialChatPage) =
     [\<lparr>msg_id = ''100'', msg_text = ''hello'', msg_sender = user, msg_timestamp = 100,
       msg_conversation_id = None\<rparr>,
      \<lparr>msg_id = ''m1'', msg_text = ''hi'', msg_sender = ai, msg_timestamp = 200,
       msg_conversation_id = Some ''c1''\<rparr>]
   \<and> messages
       (sendMessage (\<lambda>req. Inr \<lparr>response = Some [], message_id = None, conversation_id = None\<rparr>)
          100 200 ''  hello '' initialChatPage) =
     [\<lparr>msg_id = ''100'', msg_text = ''hello'', msg_sender = user, msg_timestamp = 100,
       msg_conversation_id = None\<rparr>,
      \<lparr>msg_id = ''201'', msg_text = ''I received your message.'', msg_sender = ai,
       msg_timestamp = 200, msg_conversation_id = None\<rparr>]"
  using
    sendMessage_success [of "''  hello ''"
      "\<lambda>req. Inr \<lparr>response = Some ''hi'', message_id = Some ''m1'', conversation_id = Some ''c1''\<rparr>"
      initialChatPage
      "\<lparr>response = Some ''hi'', message_id = Some ''m1'', conversation_id = Some ''c1''\<rparr>"
      100 200]
    sendMessage_success [of "''  hello ''"
      "\<lambda>req. Inr \<lparr>response = Some [], message_id = None, conversation_id = None\<rparr>"
      initialChatPage
      "\<lparr>response = Some [], message_id = None, conversation_id = None\<rparr>"
      100 200]
  by (simp add: trim_def isWhiteSpace_def initialChatPage_def or_undefined_def
      toString.simps digit_def)

text \<open>
  A response whose \<open>message_id\<close> is present and is the empty string: the message gets the
  locally generated id, not the field's value.
\<close>

theorem sendMessage_empty_message_id_counterexample:
  "message_id \<lparr>response = Some ''hi'', message_id = Some [], conversation_id = Some ''c1''\<rparr>
     = Some []
   \<and> msg_id (last (messages
       (sendMessage
          (\<lambda>req. Inr \<lparr>response = Some ''hi'', message_id = Some [], conversation_id = Some ''c1''\<rparr>)
          100 200 ''hello'' initialChatPage))) = ''201''
   \<and> msg_id (last (messages
       (sendMessage
          (\<lambda>req. Inr \<lparr>response = Some ''hi'', message_id = Some [], conversation_id = Some ''c1''\<rparr>)
          100 200 ''hello'' initialChatPage))) \<noteq> []"
  by (simp add: sendMessage_def sendMessage_begin_def sendMessage_resume_def Let_def
      trim_def isWhiteSpace_def initialChatPage_def or_else_def toString.simps digit_def)

text \<open>
  Claim C2. Two calls overlap: both start while the conversation id is still unset, so both
  send a payload without one and both closures hold the unset value. The first response
  assigns "c1"; when the second response arrives its closure still sees no conversation
  id and the assignment runs again, replacing "c1" by "c2". For calls that do not overlap
  the id is kept once set (\<open>sendMessage_keeps_conversationId\<close>) and the payload carries
  it (\<open>payload_conversation_id\<close>).
\<close>

theorem conversationId_reassigned_by_overlapping_calls:
  "sendMessage_begin 100 ''first'' initialChatPage \<noteq> None
   \<and> sendMessage_begin 101 ''second''
        (snd (the (sendMessage_begin 100 ''first'' initialChatPage))) \<noteq> None
   \<and> (let (callA, s1) = the (sendMessage_begin 100 ''first'' initialChatPage);
          (callB, s2) = the (sendMessage_begin 101 ''second'' s1);
          s3 = sendMessage_resume callA 200
                 (Inr \<lparr>response = Some ''one'', message_id = Some ''m1'',
                       conversation_id = Some ''c1''\<rparr>) s2;
          s4 = sendMessage_resume callB 201
                 (Inr \<lparr>response = Some ''two'', message_id = Some ''m2'',
                       conversation_id = Some ''c2''\<rparr>) s3
        in conversationId s2 = None
           \<and> req_conversation_id (request callB) = None
           \<and> conversationId s3 = Some ''c1''
           \<and> conversationId s4 = Some ''c2'')"
  by (simp add: sendMessage_begin_def sendMessage_resume_def Let_def payload_def
      trim_def isWhiteSpace_def initialChatPage_def or_undefined_def)

lemma sendMessage_failure:
  assumes "trim text \<noteq> []" and "mutateAsync (payload text st) = Inl e"
  shows "messages (sendMessage mutateAsync t0 t1 text st) =
        messages st @
          [\<lparr>msg_id = toString t0, msg_text = trim text, msg_sender = user, msg_timestamp = t0,
            msg_conversation_id = or_undefined (conversationId st)\<rparr>,
           \<lparr>msg_id = toString (t1 + 1),
            msg_text = ''Sorry, I encountered an error: '' @
              (if truthy e then the e else ''Please try again.''),
            msg_sender = ai, msg_timestamp = t1, msg_conversation_id = None\<rparr>]
      \<and> conversationId (sendMessage mutateAsync t0 t1 text st) = conversationId st"
  using assms
  by (simp add: sendMessage_def sendMessage_begin_def sendMessage_resume_def Let_def or_else_eq)

lemma ChatSection_sendMessage_failure:
  assumes "trim text \<noteq> []" and "mutateAsync (ChatSection_payload fileId text cs) = Inl e"
  shows "cs_messages (ChatSection_sendMessage mutateAsync fileId t0 t1 text cs) =
        cs_messages cs @
          [\<lparr>msg_id = toString t0, msg_text = trim text, msg_sender = user, msg_timestamp = t0,
            msg_conversation_id = cs_conversationId cs\<rparr>,
           \<lparr>msg_id = toString (t1 + 1),
            msg_text = ''Error: '' @ (if truthy e then the e else ''Please try again.''),
            msg_sender = ai, msg_timestamp = t1, msg_conversation_id = None\<rparr>]
      \<and> cs_conversationId (ChatSection_sendMessage mutateAsync fileId t0 t1 text cs) =
          cs_conversationId cs"
  using assms
  by (simp add: or_else_eq ChatSection_sendMessage_def ChatSection_sendMessage_begin_def
      ChatSection_sendMessage_resume_def Let_def)

text \<open>
  Claim C3. The page's \<^verbatim>\<open>sendMessage\<close> does what the claim says on failure
  (\<open>sendMessage_failure\<close>). The \<^verbatim>\<open>sendMessage\<close> of the first \<^verbatim>\<open>ChatSection\<close>
  component appends one message with sender \<open>ai\<close> and no conversation id and keeps the
  stored conversation id as well, but builds the text with "Error: " in place of
  "Sorry, I encountered an error: ".
\<close>

theorem ChatSection_sendMessage_failure_text:
  "ChatSection_sendMessage (\<lambda>req. Inl (Some ''Network Error'')) None 100 200 ''hello''
     \<lparr>cs_messages = [], cs_inputText = ''hello'', cs_conversationId = None\<rparr>
     = \<lparr>cs_messages =
          [\<lparr>msg_id = ''100'', msg_text = ''hello'', msg_sender = user, msg_timestamp = 100,
            msg_conversation_id = None\<rparr>,
           \<lparr>msg_id = ''201'', msg_text = ''Error: Network Error'', msg_sender = ai,
            msg_timestamp = 200, msg_conversation_id = None\<rparr>],
        cs_inputText = [], cs_conversationId = None\<rparr>
   \<and> ''Error: Network Error'' \<noteq> ''Sorry, I encountered an error: Network Error''"
  by (simp add: ChatSection_sendMessage_def ChatSection_sendMessage_begin_def
      ChatSection_sendMessage_resume_def Let_def trim_def isWhiteSpace_def or_else_def
      toString.simps digit_def)

section \<open>Selection state\<close>

lemma handleFileSelect_unselect_idempotent:
  "handleFileSelect fileId False (handleFileSelect fileId False st) =
     handleFileSelect fileId False st"
  by (simp add: handleFileSelect_def)

lemma handleFileClick_no_duplicate:
  "distinct (selectedFiles st) \<Longrightarrow> distinct (selectedFiles (handleFileClick file st))"
  by (simp add: handleFileClick_def Let_def)

text \<open>
  Claim C8. When the selection is empty and the list of uploaded files is not, the effect
  makes the first uploaded file the only selected file and the active file.
\<close>

theorem defaultSelection_first_file:
  assumes "selectedFiles st = []" and "uploadedFiles \<noteq> []"
  shows "selectedFiles (defaultSelection uploadedFiles st) = [uf_id (hd uploadedFiles)]
     \<and> activeFileId (defaultSelection uploadedFiles st) = Some (uf_id (hd uploadedFiles))
     \<and> activeDocument (defaultSelection uploadedFiles st) = Some (uf_name (hd uploadedFiles))"
  using assms by (simp add: defaultSelection_def Let_def hd_conv_nth)

theorem defaultSelection_first_file_witness:
  "selectedFiles initialChatPage = []
   \<and> [\<lparr>uf_id = ''f1'', uf_name = ''one.pdf'', uf_size = 5, uf_type = ''application/pdf'',
        uf_uploadedAt = 1\<rparr>,
       \<lparr>uf_id = ''f2'', uf_name = ''two.pdf'', uf_size = 6, uf_type = ''application/pdf'',
        uf_uploadedAt = 2\<rparr>] \<noteq> []
   \<and> selectedFiles
       (defaultSelection
          [\<lparr>uf_id = ''f1'', uf_name = ''one.pdf'', uf_size = 5, uf_type = ''application/pdf'',
            uf_uploadedAt = 1\<rparr>,
           \<lparr>uf_id = ''f2'', uf_name = ''two.pdf'', uf_size = 6, uf_type = ''application/pdf'',
            uf_uploadedAt = 2\<rparr>] initialChatPage) = [''f1'']
   \<and> activeFileId
       (defaultSelection
          [\<lparr>uf_id = ''f1'', uf_name = ''one.pdf'', uf_size = 5, uf_type = ''application/pdf'',
            uf_uploadedAt = 1\<rparr>,
           \<lparr>uf_id = ''f2'', uf_name = ''two.pdf'', uf_size = 6, uf_type = ''application/pdf'',
            uf_uploadedAt = 2\<rparr>] initialChatPage) = Some ''f1''"
  using defaultSelection_first_file [of initialChatPage
          "[\<lparr>uf_id = ''f1'', uf_name = ''one.pdf'', uf_size = 5, uf_type = ''application/pdf'',
            uf_uploadedAt = 1\<rparr>,
           \<lparr>uf_id = ''f2'', uf_name = ''two.pdf'', uf_size = 6, uf_type = ''application/pdf'',
            uf_uploadedAt = 2\<rparr>]"]
  by (simp add: initialChatPage_def)

text \<open>
  Claim C9. \<^verbatim>\<open>handleFileSelect\<close> with \<open>selected = true\<close> appends the id without
  looking for it: asked twice for the same final state it stores the id twice, so the
  second call changes the selection and the selection holds a duplicate. The sibling
  \<^verbatim>\<open>handleFileClick\<close> tests membership first (\<open>handleFileClick_no_duplicate\<close>).
\<close>

theorem handleFileSelect_twice_duplicates:
  "selectedFiles (handleFileSelect ''f1'' True initialChatPage) = [''f1'']
   \<and> selectedFiles (handleFileSelect ''f1'' True (handleFileSelect ''f1'' True initialChatPage))
       = [''f1'', ''f1'']
   \<and> \<not> distinct
       (selectedFiles (handleFileSelect ''f1'' True (handleFileSelect ''f1'' True initialChatPage)))"
  by (simp add: handleFileSelect_def initialChatPage_def)

end
